theory Spec2Isabelle
  imports Main
begin

section \<open>Chroma-Deck: the hub and room client of \<^verbatim>\<open>chroma_deck.py\<close>\<close>

text \<open>
  The client is an interactive program: it reads lines from the keyboard, talks to
  two websocket connections and prints. The embedding makes the environment an
  explicit input (the lines typed, the frames each connection delivers, the outcome
  of each send, the scheduling of the receiver task) and the behaviour an explicit
  output: the list of events the program performs, in order. Every \<^verbatim>\<open>print\<close>
  statement of the source is one constructor of \<open>printed\<close>.

  A Python \<^verbatim>\<open>str\<close> is modelled as \<open>string\<close>; a character is read as the code
  point of the same number (code points below 256).
\<close>

subsection \<open>Python strings\<close>

definition py_isspace :: "char \<Rightarrow> bool" where
  \<comment> \<open>the code points below 256 that \<^verbatim>\<open>str.strip()\<close> removes\<close>
  "py_isspace c = (c \<in> set [CHR 0x09, CHR 0x0A, CHR 0x0B, CHR 0x0C, CHR 0x0D,
                              CHR 0x1C, CHR 0x1D, CHR 0x1E, CHR 0x1F, CHR 0x20,
                              CHR 0x85, CHR 0xA0])"

definition py_strip :: "string \<Rightarrow> string" where
  \<comment> \<open>\<^verbatim>\<open>s.strip()\<close>\<close>
  "py_strip s = rev (dropWhile py_isspace (rev (dropWhile py_isspace s)))"

definition startswith :: "string \<Rightarrow> string \<Rightarrow> bool" where
  \<comment> \<open>\<^verbatim>\<open>s.startswith(p)\<close>, the prefix first\<close>
  "startswith p s = (take (length p) s = p)"

fun is_substring :: "string \<Rightarrow> string \<Rightarrow> bool" where
  \<comment> \<open>\<^verbatim>\<open>p in s\<close> for two strings\<close>
  "is_substring p [] = (p = [])"
| "is_substring p (c # s) = (startswith p (c # s) \<or> is_substring p s)"

subsection \<open>Decoded JSON and the exceptions of the run\<close>

datatype json =
    JNull
  | JBool bool
  | JInt int
  | JStr string
  | JArr "json list"
  | JObj "(string \<times> json) list"

text \<open>
  \<open>JObj\<close> is a Python \<^verbatim>\<open>dict\<close> in insertion order; a lookup is \<open>map_of\<close>.
  JSON numbers are integers here: a number with a fraction behaves like \<open>JInt\<close> in
  every operation the client applies (no \<^verbatim>\<open>len\<close>, no \<^verbatim>\<open>get\<close>, no \<^verbatim>\<open>startswith\<close>).
\<close>

datatype exn =
    AttributeError
  | TypeError
  | EOFError
  | ConnectionClosedOK
  | ConnectionClosedError
  | KeyError
  | JSONDecodeError
  | NetworkError string
  | KeyboardInterrupt

fun is_Exception :: "exn \<Rightarrow> bool" where
  \<comment> \<open>what \<^verbatim>\<open>except Exception\<close> catches: everything but the interrupt\<close>
  "is_Exception KeyboardInterrupt = False"
| "is_Exception _ = True"

fun py_truthy :: "json \<Rightarrow> bool" where
  "py_truthy JNull = False"
| "py_truthy (JBool b) = b"
| "py_truthy (JInt n) = (n \<noteq> 0)"
| "py_truthy (JStr s) = (s \<noteq> [])"
| "py_truthy (JArr xs) = (xs \<noteq> [])"
| "py_truthy (JObj d) = (d \<noteq> [])"

fun py_len :: "json \<Rightarrow> exn + nat" where
  "py_len (JStr s) = Inr (length s)"
| "py_len (JArr xs) = Inr (length xs)"
| "py_len (JObj d) = Inr (length d)"
| "py_len _ = Inl TypeError"

fun py_items :: "json \<Rightarrow> exn + (string \<times> json) list" where
  \<comment> \<open>\<^verbatim>\<open>v.items()\<close>\<close>
  "py_items (JObj d) = Inr d"
| "py_items _ = Inl AttributeError"

fun py_get :: "json \<Rightarrow> string \<Rightarrow> exn + json option" where
  \<comment> \<open>\<^verbatim>\<open>v.get(k)\<close>: \<open>None\<close> is Python's \<^verbatim>\<open>None\<close> for a missing key\<close>
  "py_get (JObj d) k = Inr (map_of d k)"
| "py_get _ k = Inl AttributeError"

fun py_in :: "string \<Rightarrow> json \<Rightarrow> exn + bool" where
  \<comment> \<open>\<^verbatim>\<open>k in v\<close> for a string \<open>k\<close>\<close>
  "py_in k (JObj d) = Inr (k \<in> set (map fst d))"
| "py_in k (JStr s) = Inr (is_substring k s)"
| "py_in k (JArr xs) = Inr (JStr k \<in> set xs)"
| "py_in k _ = Inl TypeError"

fun py_getitem :: "json \<Rightarrow> string \<Rightarrow> exn + json" where
  \<comment> \<open>\<^verbatim>\<open>v[k]\<close> for a string \<open>k\<close>\<close>
  "py_getitem (JObj d) k = (case map_of d k of None \<Rightarrow> Inl KeyError | Some v \<Rightarrow> Inr v)"
| "py_getitem _ k = Inl TypeError"

subsection \<open>Events\<close>

datatype render_class = SystemNotice | TaggedChat | GenericInfo

datatype frame = Text string | Binary "nat list"

datatype prompt = HubPrompt | NamePrompt | ChatPrompt

datatype printed =
    HubBanner
  | HubCommandsHint
  | RoomListHeader nat
  | NoRooms
  | RoomEntry nat string json
  | BlankLine
  | HelpText
  | Pong
  | InfoHeader
  | InfoName string
  | InfoAddress json
  | InfoProtocol bool
  | InfoNotFound string
  | JoinNotFound string
  | Connecting string
  | ReturnedToHub
  | Goodbye
  | UnknownCommand string
  | AdminNotice json
  | WelcomeBanner frame
  | Joined string
  | RoomCommandsHint
  | LeaveHint
  | Rendered render_class string
  | Disconnected
  | Leaving
  | ConnectionLost
  | FailedToJoin exn
  | Exiting

datatype event =
    Print printed
  | Prompt prompt
  | HubConnect
  | HubSendGetList
  | HubClose
  | RoomConnect json
  | RoomSend string
  | RoomClose
  | CreateReceiver
  | CancelReceiver

text \<open>
  \<open>Prompt p\<close> is one call of \<^verbatim>\<open>read_input\<close>; \<open>InfoProtocol True\<close> is the line
  \<^verbatim>\<open>Protocol: WSS (Secure)\<close>; \<open>Rendered c m\<close> is one of the three prints of the
  receiver (the wall-clock stamp is left out). \<open>HubSendGetList\<close> and \<open>RoomSend\<close>
  stand for a send that succeeded.
\<close>

subsection \<open>The receiver task of a room (lines 130 to 144)\<close>

definition classify :: "string \<Rightarrow> render_class" where
  "classify msg =
     (if startswith ''---'' msg then SystemNotice
      else if startswith ''['' msg then TaggedChat
      else GenericInfo)"

datatype stream_end = EndOK | EndError

datatype task = NoTask | Running | Finished | Cancelled

text \<open>
  \<open>receiver k fs e\<close> runs the receiver for at most \<open>k\<close> steps of its
  \<^verbatim>\<open>async for\<close> over the frames \<open>fs\<close> still to arrive. After the last frame the
  iteration ends normally (\<open>EndOK\<close>: nothing is printed) or raises (\<open>EndError\<close>).
  A binary frame makes \<^verbatim>\<open>msg.startswith('---')\<close> raise \<^verbatim>\<open>TypeError\<close>, which
  the \<^verbatim>\<open>except Exception\<close> of the receiver catches.
\<close>

fun receiver :: "nat \<Rightarrow> frame list \<Rightarrow> stream_end \<Rightarrow> event list \<times> task \<times> frame list" where
  "receiver 0 fs e = ([], Running, fs)"
| "receiver (Suc k) [] EndOK = ([], Finished, [])"
| "receiver (Suc k) [] EndError = ([Print Disconnected], Finished, [])"
| "receiver (Suc k) (Binary b # fs) e = ([Print Disconnected], Finished, fs)"
| "receiver (Suc k) (Text msg # fs) e =
     (case receiver k fs e of (evs, t, fs') \<Rightarrow> (Print (Rendered (classify msg) msg) # evs, t, fs'))"

subsection \<open>A room session (lines 117 to 161)\<close>

datatype key_input = Line string | Interrupt

text \<open>
  The keyboard is a list of \<open>key_input\<close>: a line typed, or an interrupt while the
  program waits for one. \<^verbatim>\<open>input()\<close> raises \<^verbatim>\<open>EOFError\<close> when the list is used up.

  A \<open>room\<close> is what one \<^verbatim>\<open>connect(address)\<close> meets: whether connecting raises, the
  frames the server delivers and how the stream ends after them, the outcome of each
  \<^verbatim>\<open>ws.send\<close> in turn (\<open>None\<close>: sent; every send after the list is sent), and the
  schedule: for each \<^verbatim>\<open>await\<close> of the main coroutine while the receiver task
  exists, the number of steps the receiver makes meanwhile (none after the list).
\<close>

record room =
  connect_error :: "exn option"
  pending :: "frame list"
  ending :: stream_end
  send_results :: "exn option list"
  schedule :: "nat list"

datatype room_exit = ReturnLeave | ReturnSendFailed | ExceptFailedToJoin

text \<open>
  \<^verbatim>\<open>room_chat\<close> returns \<^verbatim>\<open>None\<close> on every path; \<open>room_exit\<close> names the path
  taken: the \<^verbatim>\<open>return\<close> of line 153, the \<^verbatim>\<open>return\<close> of line 159, or the handler
  of line 160.
\<close>

definition closed_exn :: "stream_end \<Rightarrow> exn" where
  \<comment> \<open>what \<^verbatim>\<open>ws.recv()\<close> raises on a closed connection\<close>
  "closed_exn e = (case e of EndOK \<Rightarrow> ConnectionClosedOK | EndError \<Rightarrow> ConnectionClosedError)"

definition room_send :: "room \<Rightarrow> exn option \<times> room" where
  "room_send r = (case send_results r of [] \<Rightarrow> (None, r) | x # xs \<Rightarrow> (x, r\<lparr>send_results := xs\<rparr>))"

definition suspend :: "task \<Rightarrow> room \<Rightarrow> event list \<times> task \<times> room" where
  \<comment> \<open>one \<^verbatim>\<open>await\<close> of the main coroutine: the receiver, if it runs, makes its steps\<close>
  "suspend t r =
     (case schedule r of
        [] \<Rightarrow> ([], t, r)
      | k # ks \<Rightarrow>
          (if t = Running
           then (case receiver k (pending r) (ending r) of
                   (evs, t', fs) \<Rightarrow> (evs, t', r\<lparr>pending := fs, schedule := ks\<rparr>))
           else ([], t, r\<lparr>schedule := ks\<rparr>)))"

text \<open>
  The \<^verbatim>\<open>while True\<close> of lines 147 to 159. The three awaits are
  \<^verbatim>\<open>read_input\<close>, \<^verbatim>\<open>ws.close()\<close> and \<^verbatim>\<open>ws.send(line)\<close>. A cancelled receiver gets
  \<^verbatim>\<open>CancelledError\<close> at its own await: it prints nothing more.
\<close>

fun room_loop :: "task \<Rightarrow> room \<Rightarrow> key_input list
    \<Rightarrow> event list \<times> (exn + room_exit) \<times> task \<times> room \<times> key_input list" where
  "room_loop t r [] =
     (case suspend t r of (evs1, t1, r1) \<Rightarrow>
        (Prompt ChatPrompt # evs1, Inl EOFError, t1, r1, []))"
| "room_loop t r (Interrupt # ins) =
     (case suspend t r of (evs1, t1, r1) \<Rightarrow>
        (Prompt ChatPrompt # evs1, Inl KeyboardInterrupt, t1, r1, ins))"
| "room_loop t r (Line line # ins) =
     (case suspend t r of (evs1, t1, r1) \<Rightarrow>
        if py_strip line = ''/leave'' then
          (case suspend t1 r1 of (evs2, t2, r2) \<Rightarrow>
             (Prompt ChatPrompt # evs1 @ [Print Leaving, RoomClose] @ evs2 @ [CancelReceiver],
              Inr ReturnLeave, Cancelled, r2, ins))
        else
          (case suspend t1 r1 of (evs2, t2, r2) \<Rightarrow>
             (case room_send r2 of
                (None, r3) \<Rightarrow>
                  (case room_loop t2 r3 ins of (evs, x) \<Rightarrow>
                     (Prompt ChatPrompt # evs1 @ evs2 @ [RoomSend line] @ evs, x))
              | (Some e, r3) \<Rightarrow>
                  if is_Exception e
                  then (Prompt ChatPrompt # evs1 @ evs2 @ [Print ConnectionLost, CancelReceiver],
                        Inr ReturnSendFailed, Cancelled, r3, ins)
                  else (Prompt ChatPrompt # evs1 @ evs2, Inl e, t2, r3, ins))))"

definition room_body :: "room \<Rightarrow> key_input list
    \<Rightarrow> event list \<times> (exn + room_exit) \<times> task \<times> room \<times> key_input list" where
  \<comment> \<open>the body of the \<^verbatim>\<open>async with\<close>, lines 120 to 159\<close>
  "room_body r ins =
     (case pending r of
        [] \<Rightarrow> ([], Inl (closed_exn (ending r)), NoTask, r, ins)
      | w # fs \<Rightarrow>
          (case ins of
             [] \<Rightarrow> ([Print (WelcomeBanner w), Prompt NamePrompt], Inl EOFError, NoTask,
                     r\<lparr>pending := fs\<rparr>, [])
           | Interrupt # ins' \<Rightarrow>
               ([Print (WelcomeBanner w), Prompt NamePrompt], Inl KeyboardInterrupt, NoTask,
                r\<lparr>pending := fs\<rparr>, ins')
           | Line name # ins' \<Rightarrow>
               (case room_send (r\<lparr>pending := fs\<rparr>) of
                  (Some e, r1) \<Rightarrow>
                    ([Print (WelcomeBanner w), Prompt NamePrompt], Inl e, NoTask, r1, ins')
                | (None, r1) \<Rightarrow>
                    (case room_loop Running r1 ins' of (evs, x) \<Rightarrow>
                       ([Print (WelcomeBanner w), Prompt NamePrompt, RoomSend name,
                         Print (Joined name), Print RoomCommandsHint, Print LeaveHint,
                         CreateReceiver] @ evs, x)))))"

definition room_session :: "json \<Rightarrow> room \<Rightarrow> key_input list
    \<Rightarrow> event list \<times> (exn + room_exit) \<times> key_input list" where
  \<comment> \<open>\<^verbatim>\<open>async with connect(address) as ws\<close>: leaving the block awaits \<^verbatim>\<open>ws.close()\<close>\<close>
  "room_session address r ins =
     (case connect_error r of
        Some e \<Rightarrow> ([RoomConnect address], Inl e, ins)
      | None \<Rightarrow>
          (case room_body r ins of (evs, x, t, r', ins') \<Rightarrow>
             (case suspend t r' of (evs', t', r'') \<Rightarrow>
                (RoomConnect address # evs @ RoomClose # evs', x, ins'))))"

definition room_chat :: "json \<Rightarrow> room \<Rightarrow> key_input list
    \<Rightarrow> event list \<times> (exn + room_exit) \<times> key_input list" where
  \<comment> \<open>the \<^verbatim>\<open>try\<close> of line 118 with its handler of line 160\<close>
  "room_chat address r ins =
     (case room_session address r ins of
        (evs, Inl e, ins') \<Rightarrow>
          if is_Exception e then (evs @ [Print (FailedToJoin e)], Inr ExceptFailedToJoin, ins')
          else (evs, Inl e, ins')
      | (evs, Inr x, ins') \<Rightarrow> (evs, Inr x, ins'))"

subsection \<open>The hub session (lines 29 to 114)\<close>

datatype payload = Undecodable | Decodes json

definition json_loads :: "payload \<Rightarrow> exn + json" where
  \<comment> \<open>\<^verbatim>\<open>json.loads(raw)\<close>: a frame is given by what decoding it yields\<close>
  "json_loads raw = (case raw of Undecodable \<Rightarrow> Inl JSONDecodeError | Decodes v \<Rightarrow> Inr v)"

definition get_default :: "(string \<times> json) list \<Rightarrow> string \<Rightarrow> json \<Rightarrow> json" where
  \<comment> \<open>\<^verbatim>\<open>d.get(k, default)\<close> on a dict\<close>
  "get_default d k dflt = (case map_of d k of None \<Rightarrow> dflt | Some v \<Rightarrow> v)"

text \<open>
  The state of the hub session: the local variable \<^verbatim>\<open>rooms\<close> (whatever the last
  \<^verbatim>\<open>room_list\<close> message carried under \<^verbatim>\<open>"rooms"\<close>), the outcome of each send on the
  hub connection in turn (every send after the list is sent), and the rooms the
  successive \<^verbatim>\<open>connect(addr)\<close> calls meet (a connect after the list is refused).
\<close>

record hub_state =
  rooms :: json
  hub_send_results :: "exn option list"
  room_envs :: "room list"

datatype control = Continue | Break | Return | Raise exn

datatype loop_exit = LoopBreak | LoopReturn | LoopRaise exn

definition hub_send :: "hub_state \<Rightarrow> exn option \<times> hub_state" where
  "hub_send s =
     (case hub_send_results s of [] \<Rightarrow> (None, s) | x # xs \<Rightarrow> (x, s\<lparr>hub_send_results := xs\<rparr>))"

definition refused :: room where
  "refused = \<lparr>connect_error = Some (NetworkError ''connection refused''), pending = [],
              ending = EndError, send_results = [], schedule = []\<rparr>"

definition next_room :: "hub_state \<Rightarrow> room \<times> hub_state" where
  "next_room s = (case room_envs s of [] \<Rightarrow> (refused, s) | r # rs \<Rightarrow> (r, s\<lparr>room_envs := rs\<rparr>))"

definition info_command :: "json \<Rightarrow> string \<Rightarrow> event list \<times> control" where
  \<comment> \<open>lines 83 to 92\<close>
  "info_command rms room_name =
     (case py_in room_name rms of
        Inl e \<Rightarrow> ([], Raise e)
      | Inr False \<Rightarrow> ([Print (InfoNotFound room_name)], Continue)
      | Inr True \<Rightarrow>
          (case py_getitem rms room_name of
             Inl e \<Rightarrow> ([], Raise e)
           | Inr addr \<Rightarrow>
               (case addr of
                  JStr a \<Rightarrow>
                    ([Print InfoHeader, Print (InfoName room_name), Print (InfoAddress addr),
                      Print (InfoProtocol (startswith ''wss'' a))], Continue)
                | _ \<Rightarrow>
                    ([Print InfoHeader, Print (InfoName room_name), Print (InfoAddress addr)],
                     Raise AttributeError))))"

definition join_command :: "hub_state \<Rightarrow> string \<Rightarrow> key_input list
    \<Rightarrow> event list \<times> control \<times> hub_state \<times> key_input list" where
  \<comment> \<open>lines 95 to 104\<close>
  "join_command s room_name ins =
     (case py_get (rooms s) room_name of
        Inl e \<Rightarrow> ([], Raise e, s, ins)
      | Inr None \<Rightarrow> ([Print (JoinNotFound room_name)], Continue, s, ins)
      | Inr (Some addr) \<Rightarrow>
          if \<not> py_truthy addr then ([Print (JoinNotFound room_name)], Continue, s, ins)
          else
            (case next_room s of (r, s1) \<Rightarrow>
               (case room_chat addr r ins of
                  (evs, Inl e, ins') \<Rightarrow> (Print (Connecting room_name) # evs, Raise e, s1, ins')
                | (evs, Inr x, ins') \<Rightarrow>
                    (case hub_send s1 of
                       (Some e, s2) \<Rightarrow>
                         (Print (Connecting room_name) # evs @ [Print ReturnedToHub],
                          Raise e, s2, ins')
                     | (None, s2) \<Rightarrow>
                         (Print (Connecting room_name) # evs @ [Print ReturnedToHub, HubSendGetList],
                          Break, s2, ins')))))"

definition hub_command :: "hub_state \<Rightarrow> string \<Rightarrow> key_input list
    \<Rightarrow> event list \<times> control \<times> hub_state \<times> key_input list" where
  \<comment> \<open>the \<^verbatim>\<open>if\<close> chain of lines 60 to 111 on the stripped command\<close>
  "hub_command s cmd ins =
     (if cmd = ''/help'' then ([Print HelpText], Continue, s, ins)
      else if cmd \<in> set [''/list'', ''/refresh''] then
        (case hub_send s of
           (Some e, s1) \<Rightarrow> ([], Raise e, s1, ins)
         | (None, s1) \<Rightarrow> ([HubSendGetList], Break, s1, ins))
      else if cmd = ''/ping'' then
        (case hub_send s of
           (Some e, s1) \<Rightarrow> ([], Raise e, s1, ins)
         | (None, s1) \<Rightarrow> ([HubSendGetList, Print Pong], Continue, s1, ins))
      else if startswith ''/info '' cmd then
        (case info_command (rooms s) (py_strip (drop 6 cmd)) of (evs, c) \<Rightarrow> (evs, c, s, ins))
      else if startswith ''/join '' cmd then join_command s (py_strip (drop 6 cmd)) ins
      else if cmd = ''/quit'' then ([Print Goodbye], Return, s, ins)
      else ([Print (UnknownCommand cmd)], Continue, s, ins))"

lemma hub_command_Continue_input:
  "hub_command s cmd ins = (evs, Continue, s', ins') \<Longrightarrow> ins' = ins"
  by (auto simp: hub_command_def join_command_def
           split: if_splits prod.splits option.splits sum.splits)

text \<open>The \<^verbatim>\<open>while True\<close> of lines 53 to 111.\<close>

function command_loop :: "hub_state \<Rightarrow> key_input list
    \<Rightarrow> event list \<times> loop_exit \<times> hub_state \<times> key_input list" where
  "command_loop s [] = ([Prompt HubPrompt], LoopRaise EOFError, s, [])"
| "command_loop s (Interrupt # ins) = ([Prompt HubPrompt], LoopRaise KeyboardInterrupt, s, ins)"
| "command_loop s (Line line # ins) =
     (if line = [] then
        (case command_loop s ins of (evs, x) \<Rightarrow> (Prompt HubPrompt # evs, x))
      else
        (case hub_command s (py_strip line) ins of
           (evs, Continue, s', ins') \<Rightarrow>
             (case command_loop s' ins' of (evs', x) \<Rightarrow> (Prompt HubPrompt # evs @ evs', x))
         | (evs, Break, s', ins') \<Rightarrow> (Prompt HubPrompt # evs, LoopBreak, s', ins')
         | (evs, Return, s', ins') \<Rightarrow> (Prompt HubPrompt # evs, LoopReturn, s', ins')
         | (evs, Raise e, s', ins') \<Rightarrow> (Prompt HubPrompt # evs, LoopRaise e, s', ins')))"
  by pat_completeness auto
termination
  by (relation "measure (\<lambda>(s, ins). length ins)")
     (auto dest: hub_command_Continue_input [OF sym])

definition on_room_list :: "(string \<times> json) list \<Rightarrow> hub_state \<Rightarrow> key_input list
    \<Rightarrow> event list \<times> loop_exit \<times> hub_state \<times> key_input list" where
  \<comment> \<open>lines 43 to 111: store the list, print it, run the command loop\<close>
  "on_room_list d s ins =
     (let rms = get_default d ''rooms'' (JObj []); s1 = s\<lparr>rooms := rms\<rparr> in
      case py_len rms of
        Inl e \<Rightarrow> ([], LoopRaise e, s1, ins)
      | Inr n \<Rightarrow>
          if \<not> py_truthy rms then
            (case command_loop s1 ins of (evs, x) \<Rightarrow>
               ([Print (RoomListHeader n), Print NoRooms, Print BlankLine] @ evs, x))
          else
            (case py_items rms of
               Inl e \<Rightarrow> ([Print (RoomListHeader n)], LoopRaise e, s1, ins)
             | Inr items \<Rightarrow>
                 (case command_loop s1 ins of (evs, x) \<Rightarrow>
                    (Print (RoomListHeader n)
                     # map (\<lambda>(i, name, addr). Print (RoomEntry i name addr))
                           (zip [1 ..< Suc (length items)] items)
                     @ [Print BlankLine] @ evs, x))))"

datatype hub_exit = HubReturn | HubRaise exn

text \<open>
  The \<^verbatim>\<open>async for raw in ws\<close> of lines 36 to 114 over the frames still to arrive.
  After the last frame the iteration ends normally (\<open>EndOK\<close>) or raises.
\<close>

fun hub_loop :: "hub_state \<Rightarrow> stream_end \<Rightarrow> payload list \<Rightarrow> key_input list
    \<Rightarrow> event list \<times> hub_exit" where
  "hub_loop s e [] ins =
     (case e of EndOK \<Rightarrow> ([], HubReturn) | EndError \<Rightarrow> ([], HubRaise ConnectionClosedError))"
| "hub_loop s e (raw # raws) ins =
     (case json_loads raw of
        Inl ex \<Rightarrow> hub_loop s e raws ins
      | Inr data \<Rightarrow>
          (case py_get data ''type'' of
             Inl ex \<Rightarrow> ([], HubRaise ex)
           | Inr ty \<Rightarrow>
               (case data of
                  JObj d \<Rightarrow>
                    if ty = Some (JStr ''room_list'') then
                      (case on_room_list d s ins of
                         (evs, LoopBreak, s', ins') \<Rightarrow>
                           (case hub_loop s' e raws ins' of (evs', x) \<Rightarrow> (evs @ evs', x))
                       | (evs, LoopReturn, s', ins') \<Rightarrow> (evs, HubReturn)
                       | (evs, LoopRaise ex, s', ins') \<Rightarrow> (evs, HubRaise ex))
                    else if ty = Some (JStr ''admin_broadcast'') then
                      (case hub_loop s e raws ins of (evs', x) \<Rightarrow>
                         (Print (AdminNotice (get_default d ''message'' (JStr []))) # evs', x))
                    else hub_loop s e raws ins
                | _ \<Rightarrow> ([], HubRaise AttributeError))))"

subsection \<open>The program (lines 29 to 35 and 164 to 168)\<close>

record world =
  hub_connect_error :: "exn option"
  hub_in :: "payload list"
  hub_end :: stream_end
  hub_sends :: "exn option list"
  keyboard :: "key_input list"
  room_conns :: "room list"

definition hub_client :: "world \<Rightarrow> event list \<times> hub_exit" where
  "hub_client w =
     (case hub_connect_error w of
        Some e \<Rightarrow> ([HubConnect], HubRaise e)
      | None \<Rightarrow>
          (case hub_send \<lparr>rooms = JObj [], hub_send_results = hub_sends w,
                          room_envs = room_conns w\<rparr> of
             (Some e, s1) \<Rightarrow> ([HubConnect, HubClose], HubRaise e)
           | (None, s1) \<Rightarrow>
               (case hub_loop s1 (hub_end w) (hub_in w) (keyboard w) of (evs, x) \<Rightarrow>
                  ([HubConnect, HubSendGetList, Print HubBanner, Print HubCommandsHint]
                   @ evs @ [HubClose], x))))"

datatype process_end = ExitNormally | Uncaught exn

definition main :: "world \<Rightarrow> event list \<times> process_end" where
  \<comment> \<open>\<^verbatim>\<open>asyncio.run(hub_client())\<close> under \<^verbatim>\<open>except KeyboardInterrupt\<close>\<close>
  "main w =
     (case hub_client w of
        (evs, HubReturn) \<Rightarrow> (evs, ExitNormally)
      | (evs, HubRaise e) \<Rightarrow>
          if e = KeyboardInterrupt then (evs @ [Print Exiting], ExitNormally)
          else (evs, Uncaught e))"

subsection \<open>Concrete environments\<close>

text \<open>A hub state whose directory has a secure room and a room with an empty address.\<close>

definition s0 :: hub_state where
  "s0 = \<lparr>rooms = JObj [(''lobby'', JStr ''wss://x/lobby''), (''void'', JStr [])],
         hub_send_results = [], room_envs = []\<rparr>"






subsection \<open>Observing the \<^verbatim>\<open>get_list\<close> requests after a room\<close>

text \<open>
  The events that only \<^verbatim>\<open>room_chat\<close> produces: the connection to the room, its sends
  and its close, the receiver task, the two prompts of the room and the lines printed
  by lines 118 to 161.
\<close>

definition room_event :: "event \<Rightarrow> bool" where
  "room_event ev =
     (case ev of
        RoomConnect a \<Rightarrow> True
      | RoomSend l \<Rightarrow> True
      | RoomClose \<Rightarrow> True
      | CreateReceiver \<Rightarrow> True
      | CancelReceiver \<Rightarrow> True
      | Prompt p \<Rightarrow> p = NamePrompt \<or> p = ChatPrompt
      | Print p \<Rightarrow>
          (case p of
             WelcomeBanner f \<Rightarrow> True
           | Joined n \<Rightarrow> True
           | RoomCommandsHint \<Rightarrow> True
           | LeaveHint \<Rightarrow> True
           | Rendered c m \<Rightarrow> True
           | Disconnected \<Rightarrow> True
           | Leaving \<Rightarrow> True
           | ConnectionLost \<Rightarrow> True
           | FailedToJoin e \<Rightarrow> True
           | _ \<Rightarrow> False)
      | _ \<Rightarrow> False)"

text \<open>
  A monitor over the events of a run. It is started by the room session itself, not
  by anything the hub session does: every event of a room puts it in \<open>After 0\<close>, so
  that after the last event of a room session, which is where \<^verbatim>\<open>room_chat\<close> returns,
  \<open>After n\<close> says that \<open>n\<close> requests \<^verbatim>\<open>get_list\<close> were sent to the hub since the return.
  At the next prompt for a hub command it demands that \<open>n\<close> is one.
\<close>

datatype watch = Idle | After nat | Violated

definition observe :: "watch \<Rightarrow> event \<Rightarrow> watch" where
  "observe w ev =
     (case w of
        Violated \<Rightarrow> Violated
      | Idle \<Rightarrow> (if room_event ev then After 0 else Idle)
      | After n \<Rightarrow>
          (if room_event ev then After 0
           else if ev = HubSendGetList then After (Suc n)
           else if ev = Prompt HubPrompt then (if n = 1 then Idle else Violated)
           else After n))"

definition one_get_list_after_room :: "event list \<Rightarrow> bool" where
  "one_get_list_after_room evs = (foldl observe Idle evs \<noteq> Violated)"

definition quiet :: "event \<Rightarrow> bool" where
  \<comment> \<open>the events the monitor does not look at\<close>
  "quiet ev = (\<not> room_event ev \<and> ev \<noteq> HubSendGetList \<and> ev \<noteq> Prompt HubPrompt)"

section \<open>Properties\<close>

lemma startswith_Nil [simp]: "startswith [] s"
  by (simp add: startswith_def)

lemma startswith_Cons_Nil [simp]: "\<not> startswith (c # p) []"
  by (simp add: startswith_def)

lemma startswith_Cons_Cons [simp]: "startswith (c # p) (d # s) = (c = d \<and> startswith p s)"
  by (auto simp: startswith_def)

text \<open>
  C7. The classification of an inbound text line is a function of the line alone,
  and every line falls in exactly one class by the ordered prefix rule: a line that
  starts with \<^verbatim>\<open>---\<close> is rendered as a system notice; otherwise a line that starts
  with \<^verbatim>\<open>[\<close> is rendered as a tagged chat line; every other line is rendered as
  generic information. The receiver renders the line once, in that class.
\<close>

theorem classify_total_ordered:
  "receiver (Suc 0) [Text msg] e = ([Print (Rendered (classify msg) msg)], Running, [])
   \<and> (classify msg = SystemNotice) = startswith ''---'' msg
   \<and> (classify msg = TaggedChat) = (\<not> startswith ''---'' msg \<and> startswith ''['' msg)
   \<and> (classify msg = GenericInfo) = (\<not> startswith ''---'' msg \<and> \<not> startswith ''['' msg)"
  by (simp add: classify_def)

subsection \<open>The hub commands on the cached directory\<close>

lemma py_strip_Nil [simp]: "py_strip [] = []"
  by (simp add: py_strip_def)

lemma map_of_None_keys: "(map_of d k = None) = (k \<notin> set (map fst d))"
  by (simp add: map_of_eq_None_iff)

lemma hub_command_info:
  "startswith ''/info '' cmd \<Longrightarrow>
   hub_command s cmd ins =
     (case info_command (rooms s) (py_strip (drop 6 cmd)) of (evs, c) \<Rightarrow> (evs, c, s, ins))"
  unfolding hub_command_def by (auto simp: startswith_def)

lemma hub_command_join:
  "startswith ''/join '' cmd \<Longrightarrow>
   hub_command s cmd ins = join_command s (py_strip (drop 6 cmd)) ins"
  unfolding hub_command_def by (auto simp: startswith_def)

lemma command_loop_Continue:
  "line \<noteq> [] \<Longrightarrow> hub_command s (py_strip line) ins = (evs, Continue, s', ins') \<Longrightarrow>
   command_loop s (Line line # ins) =
     (case command_loop s' ins' of (evs', x) \<Rightarrow> (Prompt HubPrompt # evs @ evs', x))"
  by simp

lemma hub_quit: "hub_command s ''/quit'' ins = ([Print Goodbye], Return, s, ins)"
  by (simp add: hub_command_def)

lemma strip_quit: "py_strip ''/quit'' = ''/quit''"
  by (simp add: py_strip_def py_isspace_def)

lemma strip_ghost: "py_strip ''ghost'' = ''ghost''"
  by (simp add: py_strip_def py_isspace_def)

lemma strip_join_ghost: "py_strip ''/join ghost '' = ''/join ghost''"
  by (simp add: py_strip_def py_isspace_def)

text \<open>
  C5. When the cached directory is a dict \<open>d\<close> and the name of a \<^verbatim>\<open>/join\<close> command is
  not a key of \<open>d\<close>, the command prints the not-found message and nothing else (no
  connection is attempted, no room is consumed), and the command loop goes on with
  the next line in the same state: the directory is unchanged.
\<close>

theorem join_absent_not_found:
  assumes "rooms s = JObj d"
    and "startswith ''/join '' (py_strip line)"
    and "map_of d (py_strip (drop 6 (py_strip line))) = None"
  shows "hub_command s (py_strip line) ins =
           ([Print (JoinNotFound (py_strip (drop 6 (py_strip line))))], Continue, s, ins)
       \<and> command_loop s (Line line # ins) =
           (case command_loop s ins of (evs, x) \<Rightarrow>
              (Prompt HubPrompt # Print (JoinNotFound (py_strip (drop 6 (py_strip line)))) # evs, x))"
proof -
  have step: "hub_command s (py_strip line) ins =
           ([Print (JoinNotFound (py_strip (drop 6 (py_strip line))))], Continue, s, ins)"
    using assms by (simp add: hub_command_join join_command_def)
  have "line \<noteq> []" using assms(2) by auto
  then show ?thesis using step by (simp add: command_loop_Continue)
qed

theorem join_absent_not_found_witness:
  "command_loop \<lparr>rooms = JObj [(''lobby'', JStr ''ws://x/lobby'')], hub_send_results = [], room_envs = []\<rparr>
      [Line ''/join ghost '', Line ''/quit'']
   = ([Prompt HubPrompt, Print (JoinNotFound ''ghost''), Prompt HubPrompt, Print Goodbye], LoopReturn,
      \<lparr>rooms = JObj [(''lobby'', JStr ''ws://x/lobby'')], hub_send_results = [], room_envs = []\<rparr>, [])"
  using join_absent_not_found [of "\<lparr>rooms = JObj [(''lobby'', JStr ''ws://x/lobby'')], hub_send_results = [], room_envs = []\<rparr>"
       "[(''lobby'', JStr ''ws://x/lobby'')]" "''/join ghost ''" "[Line ''/quit'']"]
  by (simp add: strip_join_ghost strip_ghost strip_quit hub_quit)

lemma strip_lobby: "py_strip ''lobby'' = ''lobby''"
  by (simp add: py_strip_def py_isspace_def)

lemma strip_void: "py_strip ''void'' = ''void''"
  by (simp add: py_strip_def py_isspace_def)

lemma strip_info_lobby: "py_strip ''/info lobby'' = ''/info lobby''"
  by (simp add: py_strip_def py_isspace_def)

lemma strip_info_ghost: "py_strip ''/info ghost'' = ''/info ghost''"
  by (simp add: py_strip_def py_isspace_def)

lemma strip_info_void: "py_strip ''/info void'' = ''/info void''"
  by (simp add: py_strip_def py_isspace_def)

lemma strip_join_void: "py_strip ''/join void'' = ''/join void''"
  by (simp add: py_strip_def py_isspace_def)

text \<open>
  C6. When the cached directory is a dict \<open>d\<close>, an \<^verbatim>\<open>/info\<close> command whose name is
  not a key of \<open>d\<close> prints the not-found message; when the name is a key with the
  address string \<open>a\<close>, it prints the header, the name, exactly that address, and the
  protocol line, secure exactly when \<open>a\<close> starts with \<^verbatim>\<open>wss\<close>. In both cases the
  command loop goes on in the same state: the directory is unchanged.
\<close>

theorem info_lookup:
  assumes "rooms s = JObj d"
    and "startswith ''/info '' (py_strip line)"
  shows "(map_of d (py_strip (drop 6 (py_strip line))) = None \<longrightarrow>
            command_loop s (Line line # ins) =
              (case command_loop s ins of (evs, x) \<Rightarrow>
                 (Prompt HubPrompt # Print (InfoNotFound (py_strip (drop 6 (py_strip line)))) # evs, x)))
       \<and> (\<forall>a. map_of d (py_strip (drop 6 (py_strip line))) = Some (JStr a) \<longrightarrow>
            command_loop s (Line line # ins) =
              (case command_loop s ins of (evs, x) \<Rightarrow>
                 (Prompt HubPrompt # Print InfoHeader
                  # Print (InfoName (py_strip (drop 6 (py_strip line))))
                  # Print (InfoAddress (JStr a))
                  # Print (InfoProtocol (startswith ''wss'' a)) # evs, x)))"
proof -
  have ne: "line \<noteq> []" using assms(2) by auto
  have cmd: "hub_command s (py_strip line) ins =
     (case info_command (rooms s) (py_strip (drop 6 (py_strip line))) of (evs, c) \<Rightarrow> (evs, c, s, ins))"
    using assms(2) by (rule hub_command_info)
  show ?thesis
  proof (intro conjI allI impI)
    assume "map_of d (py_strip (drop 6 (py_strip line))) = None"
    then have "hub_command s (py_strip line) ins =
        ([Print (InfoNotFound (py_strip (drop 6 (py_strip line))))], Continue, s, ins)"
      using assms(1) cmd by (simp add: info_command_def map_of_None_keys)
    then show "command_loop s (Line line # ins) =
              (case command_loop s ins of (evs, x) \<Rightarrow>
                 (Prompt HubPrompt # Print (InfoNotFound (py_strip (drop 6 (py_strip line)))) # evs, x))"
      using ne by (simp add: command_loop_Continue)
  next
    fix a assume a: "map_of d (py_strip (drop 6 (py_strip line))) = Some (JStr a)"
    then have "py_strip (drop 6 (py_strip line)) \<in> set (map fst d)"
      using map_of_None_keys [of d "py_strip (drop 6 (py_strip line))"] by simp
    then have "hub_command s (py_strip line) ins =
        ([Print InfoHeader, Print (InfoName (py_strip (drop 6 (py_strip line)))),
          Print (InfoAddress (JStr a)), Print (InfoProtocol (startswith ''wss'' a))], Continue, s, ins)"
      using assms(1) cmd a by (simp add: info_command_def)
    then show "command_loop s (Line line # ins) =
              (case command_loop s ins of (evs, x) \<Rightarrow>
                 (Prompt HubPrompt # Print InfoHeader
                  # Print (InfoName (py_strip (drop 6 (py_strip line))))
                  # Print (InfoAddress (JStr a))
                  # Print (InfoProtocol (startswith ''wss'' a)) # evs, x))"
      using ne by (simp add: command_loop_Continue)
  qed
qed

theorem info_lookup_witness:
  "command_loop s0 [Line ''/info lobby'']
     = ([Prompt HubPrompt, Print InfoHeader, Print (InfoName ''lobby''),
         Print (InfoAddress (JStr ''wss://x/lobby'')), Print (InfoProtocol True),
         Prompt HubPrompt], LoopRaise EOFError, s0, [])
   \<and> command_loop s0 [Line ''/info ghost'']
     = ([Prompt HubPrompt, Print (InfoNotFound ''ghost''), Prompt HubPrompt],
        LoopRaise EOFError, s0, [])"
  using info_lookup [of s0 "[(''lobby'', JStr ''wss://x/lobby''), (''void'', JStr [])]" "''/info lobby''" "[]"]
        info_lookup [of s0 "[(''lobby'', JStr ''wss://x/lobby''), (''void'', JStr [])]" "''/info ghost''" "[]"]
  by (simp add: strip_info_lobby strip_info_ghost strip_lobby strip_ghost s0_def)

text \<open>
  C10. When a name is a key of the cached directory with the empty string as its
  address, \<^verbatim>\<open>/join\<close> of that name prints not-found and attempts no connection
  (\<^verbatim>\<open>not addr\<close> holds for the empty string), while \<^verbatim>\<open>/info\<close> of the same name
  treats it as present and prints the stored empty address: the two commands
  disagree on the membership of such an entry.
\<close>

theorem join_info_disagree_on_empty_address:
  assumes "rooms s = JObj d"
    and "map_of d name = Some (JStr [])"
    and "startswith ''/join '' (py_strip jline)" and "py_strip (drop 6 (py_strip jline)) = name"
    and "startswith ''/info '' (py_strip iline)" and "py_strip (drop 6 (py_strip iline)) = name"
  shows "command_loop s (Line jline # ins) =
           (case command_loop s ins of (evs, x) \<Rightarrow>
              (Prompt HubPrompt # Print (JoinNotFound name) # evs, x))
       \<and> command_loop s (Line iline # ins) =
           (case command_loop s ins of (evs, x) \<Rightarrow>
              (Prompt HubPrompt # Print InfoHeader # Print (InfoName name)
               # Print (InfoAddress (JStr [])) # Print (InfoProtocol False) # evs, x))"
proof -
  have j: "hub_command s (py_strip jline) ins = ([Print (JoinNotFound name)], Continue, s, ins)"
    using assms(1-4) by (simp add: hub_command_join join_command_def)
  have "name \<in> set (map fst d)"
    using assms(2) map_of_None_keys [of d name] by simp
  then have i: "hub_command s (py_strip iline) ins =
      ([Print InfoHeader, Print (InfoName name), Print (InfoAddress (JStr [])),
        Print (InfoProtocol False)], Continue, s, ins)"
    using assms(1,2,5,6) by (simp add: hub_command_info info_command_def)
  have "jline \<noteq> []" "iline \<noteq> []" using assms(3,5) by auto
  then show ?thesis using i j by (simp add: command_loop_Continue)
qed

theorem join_info_disagree_on_empty_address_witness:
  "command_loop s0 [Line ''/join void'']
     = ([Prompt HubPrompt, Print (JoinNotFound ''void''), Prompt HubPrompt], LoopRaise EOFError, s0, [])
   \<and> command_loop s0 [Line ''/info void'']
     = ([Prompt HubPrompt, Print InfoHeader, Print (InfoName ''void''),
         Print (InfoAddress (JStr [])), Print (InfoProtocol False), Prompt HubPrompt],
        LoopRaise EOFError, s0, [])"
  using join_info_disagree_on_empty_address
          [of s0 "[(''lobby'', JStr ''wss://x/lobby''), (''void'', JStr [])]" "''void''"
              "''/join void''" "''/info void''" "[]"]
  by (simp add: strip_join_void strip_info_void strip_void s0_def)

subsection \<open>Inbound hub payloads and the end of the hub stream\<close>

lemma hub_loop_Undecodable: "hub_loop s e (Undecodable # raws) ins = hub_loop s e raws ins"
  by (simp add: json_loads_def)

text \<open>
  C9. A payload that decodes to a JSON value that is not an object (an array, a
  number) is neither a \<^verbatim>\<open>room_list\<close> nor an \<^verbatim>\<open>admin_broadcast\<close> message, yet it is not
  discarded: \<^verbatim>\<open>data.get("type")\<close> of line 42 stands outside the \<^verbatim>\<open>try\<close> of lines 37
  to 40 and raises \<^verbatim>\<open>AttributeError\<close>, which ends the receive loop and leaves
  \<^verbatim>\<open>main\<close> uncaught.
\<close>

theorem non_object_payload_raises:
  "hub_loop s e (Decodes (JArr []) # raws) ins = ([], HubRaise AttributeError)
   \<and> hub_loop s e (Decodes (JInt 5) # raws) ins = ([], HubRaise AttributeError)
   \<and> main \<lparr>hub_connect_error = None, hub_in = [Decodes (JArr [])], hub_end = EndOK,
            hub_sends = [], keyboard = [], room_conns = []\<rparr>
       = ([HubConnect, HubSendGetList, Print HubBanner, Print HubCommandsHint, HubClose],
          Uncaught AttributeError)"
  by (simp add: json_loads_def main_def hub_client_def hub_send_def)

text \<open>
  C3, as stated, fails: when the hub stream ends right after the connection is made,
  the run prints the two banner lines and nothing else. After a normal close
  \<^verbatim>\<open>hub_client\<close> returns and the process exits without a message; after an error the
  exception leaves \<^verbatim>\<open>main\<close> uncaught, no message having been printed.
\<close>

theorem hub_drop_unreported:
  "main \<lparr>hub_connect_error = None, hub_in = [], hub_end = EndOK,
          hub_sends = [], keyboard = [Line ''/help''], room_conns = []\<rparr>
     = ([HubConnect, HubSendGetList, Print HubBanner, Print HubCommandsHint, HubClose],
        ExitNormally)
   \<and> main \<lparr>hub_connect_error = None, hub_in = [], hub_end = EndError,
            hub_sends = [], keyboard = [Line ''/help''], room_conns = []\<rparr>
     = ([HubConnect, HubSendGetList, Print HubBanner, Print HubCommandsHint, HubClose],
        Uncaught ConnectionClosedError)"
  by (simp add: main_def hub_client_def hub_send_def)

text \<open>
  C3, amended. When the hub stream ends while the client waits for the next hub
  message, the receive loop performs no further event, whatever the state and the
  lines still to be typed: no command is read and nothing is printed. After a normal
  close the session returns and the process exits normally; after an error
  \<^verbatim>\<open>ConnectionClosedError\<close> leaves \<^verbatim>\<open>main\<close> uncaught.
\<close>

theorem hub_stream_end_ends_session:
  "hub_loop s e [] ins =
     ([], case e of EndOK \<Rightarrow> HubReturn | EndError \<Rightarrow> HubRaise ConnectionClosedError)
   \<and> main \<lparr>hub_connect_error = None, hub_in = [], hub_end = e,
            hub_sends = None # sends, keyboard = ins, room_conns = rs\<rparr>
     = ([HubConnect, HubSendGetList, Print HubBanner, Print HubCommandsHint, HubClose],
        case e of EndOK \<Rightarrow> ExitNormally | EndError \<Rightarrow> Uncaught ConnectionClosedError)"
  by (cases e) (simp_all add: main_def hub_client_def hub_send_def)

subsection \<open>The steady state of a room\<close>

lemma strip_leave: "py_strip ''/leave'' = ''/leave''"
  by (simp add: py_strip_def py_isspace_def)

lemma classify_hi: "classify ''hi'' = GenericInfo"
  by (simp add: classify_def)

text \<open>
  C1. The line \<^verbatim>\<open>/leave\<close> is not sent, the connection is closed, the receiver is
  cancelled and the session returns by line 153; but \<^verbatim>\<open>await ws.close()\<close> of line
  151 comes before \<^verbatim>\<open>recv_task.cancel()\<close> of line 152, so a message in flight that
  the receiver gets while the close is awaited is rendered after the decision to
  leave. Here the message \<^verbatim>\<open>hi\<close> is in flight and the receiver makes one step
  during the close.
\<close>

theorem leave_renders_message_in_flight:
  "room_loop Running
     \<lparr>connect_error = None, pending = [Text ''hi''], ending = EndOK,
      send_results = [], schedule = [0, Suc 0]\<rparr>
     [Line ''/leave'']
   = ([Prompt ChatPrompt, Print Leaving, RoomClose, Print (Rendered GenericInfo ''hi''),
       CancelReceiver],
      Inr ReturnLeave, Cancelled,
      \<lparr>connect_error = None, pending = [], ending = EndOK, send_results = [], schedule = []\<rparr>,
      [])"
  by (simp add: strip_leave suspend_def classify_hi)

lemma strip_bob: "py_strip ''bob'' = ''bob''"
  by (simp add: py_strip_def py_isspace_def)

lemma strip_hello: "py_strip ''hello'' = ''hello''"
  by (simp add: py_strip_def py_isspace_def)

text \<open>
  C2, as stated, fails. The receive stream of the room ends while the client waits
  for the first chat line, and the user then enters \<^verbatim>\<open>/leave\<close>. After an error
  the receiver prints the disconnect notice, after a normal close it prints nothing;
  in both runs the line typed afterwards is still read and obeyed, and the session
  ends by the \<^verbatim>\<open>return\<close> of line 153, the voluntary leave.
\<close>

theorem stream_end_does_not_end_session:
  "room_chat (JStr ''ws://x/lobby'')
     \<lparr>connect_error = None, pending = [Text ''welcome''], ending = EndError,
      send_results = [], schedule = [Suc 0]\<rparr>
     [Line ''bob'', Line ''/leave'']
   = ([RoomConnect (JStr ''ws://x/lobby''), Print (WelcomeBanner (Text ''welcome'')),
       Prompt NamePrompt, RoomSend ''bob'', Print (Joined ''bob''), Print RoomCommandsHint,
       Print LeaveHint, CreateReceiver, Prompt ChatPrompt, Print Disconnected, Print Leaving,
       RoomClose, CancelReceiver, RoomClose],
      Inr ReturnLeave, [])
   \<and> room_chat (JStr ''ws://x/lobby'')
     \<lparr>connect_error = None, pending = [Text ''welcome''], ending = EndOK,
      send_results = [], schedule = [Suc 0]\<rparr>
     [Line ''bob'', Line ''/leave'']
   = ([RoomConnect (JStr ''ws://x/lobby''), Print (WelcomeBanner (Text ''welcome'')),
       Prompt NamePrompt, RoomSend ''bob'', Print (Joined ''bob''), Print RoomCommandsHint,
       Print LeaveHint, CreateReceiver, Prompt ChatPrompt, Print Leaving,
       RoomClose, CancelReceiver, RoomClose],
      Inr ReturnLeave, [])"
  by (simp add: room_chat_def room_session_def room_body_def room_send_def suspend_def
                strip_leave)

lemma suspend_stream_error:
  "pending r = [] \<Longrightarrow> ending r = EndError \<Longrightarrow> schedule r = Suc k # ks \<Longrightarrow>
   suspend Running r = ([Print Disconnected], Finished, r\<lparr>pending := [], schedule := ks\<rparr>)"
  by (simp add: suspend_def)

lemma suspend_not_running:
  "t \<noteq> Running \<Longrightarrow> fst (suspend t r) = [] \<and> fst (snd (suspend t r)) = t
     \<and> send_results (snd (snd (suspend t r))) = send_results r"
  by (simp add: suspend_def split: list.splits)

text \<open>
  C2, amended. When the receive stream ends with an error while the receiver runs,
  the receiver prints the disconnect notice and finishes. The session does not end
  there: the line the user enters next is still read. If it is \<^verbatim>\<open>/leave\<close> the
  session ends as a voluntary leave; if it is another line and sending it raises,
  the connection-lost notice is printed and the session ends by line 159.
\<close>

theorem stream_error_notice_then_next_line:
  assumes "pending r = []" and "ending r = EndError" and "schedule r = Suc k # ks"
  shows "(py_strip line = ''/leave'' \<longrightarrow>
           (case room_loop Running r (Line line # ins) of (evs, x, t', r', ins') \<Rightarrow>
              evs = [Prompt ChatPrompt, Print Disconnected, Print Leaving, RoomClose, CancelReceiver]
              \<and> x = Inr ReturnLeave \<and> ins' = ins))
       \<and> (py_strip line \<noteq> ''/leave'' \<and> send_results r = Some e # rest \<and> is_Exception e \<longrightarrow>
           (case room_loop Running r (Line line # ins) of (evs, x, t', r', ins') \<Rightarrow>
              evs = [Prompt ChatPrompt, Print Disconnected, Print ConnectionLost, CancelReceiver]
              \<and> x = Inr ReturnSendFailed \<and> ins' = ins))"
proof -
  let ?r1 = "r\<lparr>pending := [], schedule := ks\<rparr>"
  have s1: "suspend Running r = ([Print Disconnected], Finished, ?r1)"
    using assms by (rule suspend_stream_error)
  obtain evs2 t2 r2 where s2: "suspend Finished ?r1 = (evs2, t2, r2)"
    by (cases "suspend Finished ?r1") auto
  have e2: "evs2 = []" and t2: "t2 = Finished" and sr: "send_results r2 = send_results r"
    using suspend_not_running [of Finished ?r1] s2 by simp_all
  show ?thesis
    using s1 s2 e2 t2 sr by (auto simp: room_send_def split: list.splits)
qed

theorem stream_error_notice_then_next_line_witness:
  "room_loop Running
     \<lparr>connect_error = None, pending = [], ending = EndError, send_results = [],
      schedule = [Suc 0]\<rparr> [Line ''/leave'']
   = ([Prompt ChatPrompt, Print Disconnected, Print Leaving, RoomClose, CancelReceiver],
      Inr ReturnLeave, Cancelled,
      \<lparr>connect_error = None, pending = [], ending = EndError, send_results = [],
       schedule = []\<rparr>, [])
   \<and> room_loop Running
     \<lparr>connect_error = None, pending = [], ending = EndError,
      send_results = [Some ConnectionClosedError], schedule = [Suc 0]\<rparr> [Line ''hello'']
   = ([Prompt ChatPrompt, Print Disconnected, Print ConnectionLost, CancelReceiver],
      Inr ReturnSendFailed, Cancelled,
      \<lparr>connect_error = None, pending = [], ending = EndError, send_results = [],
       schedule = []\<rparr>, [])"
  using stream_error_notice_then_next_line
          [of "\<lparr>connect_error = None, pending = [], ending = EndError, send_results = [],
                schedule = [Suc 0]\<rparr>" 0 "[]" "''/leave''" "[]" ConnectionClosedError "[]"]
        stream_error_notice_then_next_line
          [of "\<lparr>connect_error = None, pending = [], ending = EndError,
                send_results = [Some ConnectionClosedError], schedule = [Suc 0]\<rparr>" 0 "[]"
              "''hello''" "[]" ConnectionClosedError "[]"]
  by (simp add: strip_leave strip_hello suspend_def room_send_def)

subsection \<open>Failure of the handshake of a room\<close>

lemma hub_send_rooms: "rooms (snd (hub_send s)) = rooms s"
  by (simp add: hub_send_def split: list.splits)

lemma is_Exception_closed_exn [simp]: "is_Exception (closed_exn e)"
  by (cases e) (simp_all add: closed_exn_def)

lemma suspend_NoTask [simp]: "fst (suspend NoTask r) = []"
  using suspend_not_running [of NoTask r] by simp

lemma room_chat_connect_fails:
  "connect_error r = Some e \<Longrightarrow> is_Exception e \<Longrightarrow>
   room_chat addr r ins = ([RoomConnect addr] @ [Print (FailedToJoin e)], Inr ExceptFailedToJoin, ins)"
  by (simp add: room_chat_def room_session_def)

lemma room_chat_no_banner:
  "connect_error r = None \<Longrightarrow> pending r = [] \<Longrightarrow>
   room_chat addr r ins =
     ([RoomConnect addr, RoomClose] @ [Print (FailedToJoin (closed_exn (ending r)))],
      Inr ExceptFailedToJoin, ins)"
  by (simp add: room_chat_def room_session_def room_body_def split_beta)

lemma room_chat_no_name:
  "connect_error r = None \<Longrightarrow> pending r = w # fs \<Longrightarrow>
   room_chat addr r [] =
     ([RoomConnect addr, Print (WelcomeBanner w), Prompt NamePrompt, RoomClose]
      @ [Print (FailedToJoin EOFError)], Inr ExceptFailedToJoin, [])"
  by (simp add: room_chat_def room_session_def room_body_def split_beta)

lemma room_chat_name_send_fails:
  "connect_error r = None \<Longrightarrow> pending r = w # fs \<Longrightarrow> send_results r = Some e # others \<Longrightarrow>
   is_Exception e \<Longrightarrow>
   room_chat addr r (Line name # rest) =
     ([RoomConnect addr, Print (WelcomeBanner w), Prompt NamePrompt, RoomClose]
      @ [Print (FailedToJoin e)], Inr ExceptFailedToJoin, rest)"
  by (simp add: room_chat_def room_session_def room_body_def room_send_def split_beta)

lemma join_command_after_room:
  assumes "rooms s = JObj d" and "map_of d name = Some addr" and "py_truthy addr"
    and "room_envs s = r # rs" and "room_chat addr r ins = (evs, Inr x, ins')"
  shows "join_command s name ins =
     (case hub_send (s\<lparr>room_envs := rs\<rparr>) of
        (None, s2) \<Rightarrow>
          (Print (Connecting name) # evs @ [Print ReturnedToHub, HubSendGetList], Break, s2, ins')
      | (Some ex, s2) \<Rightarrow>
          (Print (Connecting name) # evs @ [Print ReturnedToHub], Raise ex, s2, ins'))"
  using assms by (simp add: join_command_def next_room_def split: prod.splits option.splits)

text \<open>
  C8. Let an exception that \<^verbatim>\<open>except Exception\<close> catches be raised in the handshake
  of a room: by \<^verbatim>\<open>connect\<close>, by \<^verbatim>\<open>ws.recv()\<close> for the welcome message, by the prompt
  for the name, or by sending the name. Then \<^verbatim>\<open>room_chat\<close> ends through its handler
  with the join-failure message as its last event; the receiver is never created and
  no chat line is prompted for, so the steady state is not entered. The \<^verbatim>\<open>/join\<close>
  command that called it prints the return message and sends one \<^verbatim>\<open>get_list\<close>; the
  directory of the hub state is the one before the command.
\<close>

theorem handshake_failure_reported:
  assumes exc: "is_Exception e"
    and fail: "connect_error r = Some e
         \<or> (connect_error r = None \<and> pending r = [] \<and> e = closed_exn (ending r))
         \<or> (connect_error r = None \<and> pending r \<noteq> [] \<and> ins = [] \<and> e = EOFError)
         \<or> (connect_error r = None \<and> pending r \<noteq> [] \<and> (\<exists>nm rest. ins = Line nm # rest)
              \<and> (\<exists>others. send_results r = Some e # others))"
    and dir: "rooms s = JObj d" "map_of d name = Some addr" "py_truthy addr"
             "room_envs s = r # rs"
  shows "\<exists>evs ins'.
           room_chat addr r ins = (evs @ [Print (FailedToJoin e)], Inr ExceptFailedToJoin, ins')
         \<and> CreateReceiver \<notin> set evs \<and> Prompt ChatPrompt \<notin> set evs
         \<and> join_command s name ins =
             (case hub_send (s\<lparr>room_envs := rs\<rparr>) of
                (None, s2) \<Rightarrow>
                  (Print (Connecting name) # evs
                   @ [Print (FailedToJoin e), Print ReturnedToHub, HubSendGetList], Break, s2, ins')
              | (Some ex, s2) \<Rightarrow>
                  (Print (Connecting name) # evs
                   @ [Print (FailedToJoin e), Print ReturnedToHub], Raise ex, s2, ins'))
         \<and> rooms (snd (hub_send (s\<lparr>room_envs := rs\<rparr>))) = rooms s"
proof -
  have "\<exists>evs ins'.
           room_chat addr r ins = (evs @ [Print (FailedToJoin e)], Inr ExceptFailedToJoin, ins')
         \<and> CreateReceiver \<notin> set evs \<and> Prompt ChatPrompt \<notin> set evs"
    using fail
  proof (elim disjE conjE exE)
    assume "connect_error r = Some e"
    from room_chat_connect_fails [OF this exc, of addr ins] show ?thesis
      by (intro exI [of _ "[RoomConnect addr]"] exI [of _ ins]) simp
  next
    assume "connect_error r = None" "pending r = []" "e = closed_exn (ending r)"
    with room_chat_no_banner [of r addr ins] show ?thesis
      by (intro exI [of _ "[RoomConnect addr, RoomClose]"] exI [of _ ins]) simp
  next
    assume a: "connect_error r = None" "pending r \<noteq> []" "ins = []" "e = EOFError"
    then obtain w fs where "pending r = w # fs" by (cases "pending r") auto
    with a room_chat_no_name [of r w fs addr] show ?thesis
      by (intro exI [of _ "[RoomConnect addr, Print (WelcomeBanner w), Prompt NamePrompt, RoomClose]"]
                exI [of _ "[]"]) simp
  next
    fix nm rest others
    assume a: "connect_error r = None" "pending r \<noteq> []" "ins = Line nm # rest"
      "send_results r = Some e # others"
    then obtain w fs where "pending r = w # fs" by (cases "pending r") auto
    with a exc room_chat_name_send_fails [of r w fs e others addr nm rest] show ?thesis
      by (intro exI [of _ "[RoomConnect addr, Print (WelcomeBanner w), Prompt NamePrompt, RoomClose]"]
                exI [of _ rest]) simp
  qed
  then obtain evs ins' where
    rc: "room_chat addr r ins = (evs @ [Print (FailedToJoin e)], Inr ExceptFailedToJoin, ins')"
    and ne: "CreateReceiver \<notin> set evs" "Prompt ChatPrompt \<notin> set evs"
    by blast
  have jc: "join_command s name ins =
             (case hub_send (s\<lparr>room_envs := rs\<rparr>) of
                (None, s2) \<Rightarrow>
                  (Print (Connecting name) # evs
                   @ [Print (FailedToJoin e), Print ReturnedToHub, HubSendGetList], Break, s2, ins')
              | (Some ex, s2) \<Rightarrow>
                  (Print (Connecting name) # evs
                   @ [Print (FailedToJoin e), Print ReturnedToHub], Raise ex, s2, ins'))"
    using join_command_after_room [OF dir rc] by (simp split: prod.splits option.splits)
  have "rooms (snd (hub_send (s\<lparr>room_envs := rs\<rparr>))) = rooms s"
    by (simp add: hub_send_rooms)
  with rc ne jc show ?thesis by blast
qed

theorem handshake_failure_reported_witness:
  "room_chat (JStr ''ws://x/lobby'')
     \<lparr>connect_error = Some (NetworkError ''refused''), pending = [], ending = EndError,
      send_results = [], schedule = []\<rparr> [Line ''/quit'']
   = ([RoomConnect (JStr ''ws://x/lobby''), Print (FailedToJoin (NetworkError ''refused''))],
      Inr ExceptFailedToJoin, [Line ''/quit''])
   \<and> join_command
       \<lparr>rooms = JObj [(''lobby'', JStr ''ws://x/lobby'')], hub_send_results = [],
        room_envs = [\<lparr>connect_error = Some (NetworkError ''refused''), pending = [],
                      ending = EndError, send_results = [], schedule = []\<rparr>]\<rparr>
       ''lobby'' [Line ''/quit'']
   = ([Print (Connecting ''lobby''), RoomConnect (JStr ''ws://x/lobby''),
       Print (FailedToJoin (NetworkError ''refused'')), Print ReturnedToHub, HubSendGetList],
      Break,
      \<lparr>rooms = JObj [(''lobby'', JStr ''ws://x/lobby'')], hub_send_results = [], room_envs = []\<rparr>,
      [Line ''/quit''])"
  using handshake_failure_reported
     [of "NetworkError ''refused''"
         "\<lparr>connect_error = Some (NetworkError ''refused''), pending = [], ending = EndError,
           send_results = [], schedule = []\<rparr>"
         "[Line ''/quit'']"
         "\<lparr>rooms = JObj [(''lobby'', JStr ''ws://x/lobby'')], hub_send_results = [],
           room_envs = [\<lparr>connect_error = Some (NetworkError ''refused''), pending = [],
                         ending = EndError, send_results = [], schedule = []\<rparr>]\<rparr>"
         "[(''lobby'', JStr ''ws://x/lobby'')]" "''lobby''" "JStr ''ws://x/lobby''" "[]"]
  by (simp add: room_chat_def room_session_def join_command_def next_room_def hub_send_def)

subsection \<open>The \<^verbatim>\<open>get_list\<close> request after a room\<close>

text \<open>
  Every event of a room session is a room event, and there is at least one: the monitor
  is at \<open>After 0\<close> when \<^verbatim>\<open>room_chat\<close> ends. The hub commands keep the monitor out of
  \<^const>\<open>Violated\<close>, and leave it in \<^const>\<open>Idle\<close> or in \<^term>\<open>After 1\<close> whenever the command loop
  is left by \<^verbatim>\<open>break\<close>.
\<close>

lemma room_event_simps [simp]:
  "room_event (RoomConnect a)" "room_event (RoomSend l)" "room_event RoomClose"
  "room_event CreateReceiver" "room_event CancelReceiver"
  "room_event (Prompt q) = (q \<noteq> HubPrompt)"
  "\<not> room_event HubConnect" "\<not> room_event HubSendGetList" "\<not> room_event HubClose"
  "room_event (Print (WelcomeBanner f))" "room_event (Print (Joined n))"
  "room_event (Print RoomCommandsHint)" "room_event (Print LeaveHint)"
  "room_event (Print (Rendered c m))" "room_event (Print Disconnected)"
  "room_event (Print Leaving)" "room_event (Print ConnectionLost)"
  "room_event (Print (FailedToJoin e))"
  "\<not> room_event (Print HubBanner)" "\<not> room_event (Print HubCommandsHint)"
  "\<not> room_event (Print (RoomListHeader k))" "\<not> room_event (Print NoRooms)"
  "\<not> room_event (Print (RoomEntry i nm ad))" "\<not> room_event (Print BlankLine)"
  "\<not> room_event (Print HelpText)" "\<not> room_event (Print Pong)"
  "\<not> room_event (Print InfoHeader)" "\<not> room_event (Print (InfoName nm))"
  "\<not> room_event (Print (InfoAddress ad))" "\<not> room_event (Print (InfoProtocol b))"
  "\<not> room_event (Print (InfoNotFound nm))" "\<not> room_event (Print (JoinNotFound nm))"
  "\<not> room_event (Print (Connecting nm))" "\<not> room_event (Print ReturnedToHub)"
  "\<not> room_event (Print Goodbye)" "\<not> room_event (Print (UnknownCommand nm))"
  "\<not> room_event (Print (AdminNotice ad))" "\<not> room_event (Print Exiting)"
  by (cases q; simp add: room_event_def)+

lemma quiet_simps [simp]:
  "quiet (Print p) = (\<not> room_event (Print p))" "\<not> quiet (Prompt q)"
  "quiet HubConnect" "\<not> quiet HubSendGetList" "quiet HubClose" "\<not> quiet (RoomConnect a)"
  "\<not> quiet (RoomSend l)" "\<not> quiet RoomClose" "\<not> quiet CreateReceiver"
  "\<not> quiet CancelReceiver"
  by (cases q; simp add: quiet_def)+












lemma observe_Idle [simp]:
  "observe Idle ev = (if room_event ev then After 0 else Idle)"
  by (simp add: observe_def)

lemma observe_After [simp]:
  "observe (After n) ev =
     (if room_event ev then After 0
      else if ev = HubSendGetList then After (Suc n)
      else if ev = Prompt HubPrompt then (if n = 1 then Idle else Violated)
      else After n)"
  by (simp add: observe_def)










text \<open>
  The monitor is not satisfied by every trace: it refuses a hub prompt that follows a
  room with no request in between, with two requests in between, or with the request
  sent before the room instead of after it.
\<close>

lemma monitor_refuses_no_get_list:
  "\<not> one_get_list_after_room
       [RoomConnect a, Print (FailedToJoin e), Print ReturnedToHub, Prompt HubPrompt]"
  by (simp add: one_get_list_after_room_def)

lemma monitor_refuses_unmarked_return:
  "\<not> one_get_list_after_room
       [RoomConnect a, Print ConnectionLost, CancelReceiver, RoomClose, Print (RoomListHeader 0),
        Print NoRooms, Print BlankLine, Prompt HubPrompt]"
  by (simp add: one_get_list_after_room_def)

lemma monitor_refuses_two_get_lists:
  "\<not> one_get_list_after_room
       [RoomConnect a, RoomClose, Print ReturnedToHub, HubSendGetList, HubSendGetList,
        Prompt HubPrompt]"
  by (simp add: one_get_list_after_room_def)

lemma monitor_refuses_get_list_before_room:
  "\<not> one_get_list_after_room
       [HubSendGetList, RoomConnect a, RoomClose, Print ReturnedToHub, Prompt HubPrompt]"
  by (simp add: one_get_list_after_room_def)












end
